theory Spec2Isabelle
  imports Complex_Main "HOL-Library.Sublist"
begin

section \<open>Python values\<close>

text \<open>
  The semantic matching core of JobPilot (\<^verbatim>\<open>src/semantic/embeddings.py\<close>,
  \<^verbatim>\<open>src/semantic/search_engine.py\<close>, \<^verbatim>\<open>src/semantic/llm_analyzer.py\<close>) is embedded
  function by function. Method names keep the source's spelling without the leading
  underscore, which an Isabelle name cannot start with.

  Exceptions are values: every \<^verbatim>\<open>try/except\<close> of the source is a case distinction on
  a result of type \<open>exn + 'a\<close> or \<open>'a option\<close>.
\<close>

datatype exn = ValueError | TypeError | ZeroDivisionError

subsection \<open>Floats\<close>

text \<open>
  A Python float is modelled as an exact real number, or one of the three special values
  that the source can produce: \<^verbatim>\<open>float('inf')\<close> is written in the salary scorer, and
  \<^verbatim>\<open>inf - inf\<close> and \<^verbatim>\<open>inf / inf\<close> are NaN. Rounding error of the binary
  representation is not modelled. Functions of the source all of whose results are finite
  return \<open>real\<close>.
\<close>

datatype pyfloat = Fin real | PInf | NInf | NaN

fun fl_neg :: "pyfloat \<Rightarrow> pyfloat" where
  "fl_neg (Fin a) = Fin (- a)"
| "fl_neg PInf = NInf"
| "fl_neg NInf = PInf"
| "fl_neg NaN = NaN"

fun fl_add :: "pyfloat \<Rightarrow> pyfloat \<Rightarrow> pyfloat" where
  "fl_add (Fin a) (Fin b) = Fin (a + b)"
| "fl_add (Fin a) PInf = PInf"
| "fl_add (Fin a) NInf = NInf"
| "fl_add PInf (Fin b) = PInf"
| "fl_add PInf PInf = PInf"
| "fl_add PInf NInf = NaN"
| "fl_add NInf (Fin b) = NInf"
| "fl_add NInf PInf = NaN"
| "fl_add NInf NInf = NInf"
| "fl_add NaN b = NaN"
| "fl_add a NaN = NaN"

definition fl_sub :: "pyfloat \<Rightarrow> pyfloat \<Rightarrow> pyfloat" where
  "fl_sub a b = fl_add a (fl_neg b)"

fun fl_mul :: "pyfloat \<Rightarrow> pyfloat \<Rightarrow> pyfloat" where
  "fl_mul (Fin a) (Fin b) = Fin (a * b)"
| "fl_mul (Fin a) PInf = (if a = 0 then NaN else if 0 < a then PInf else NInf)"
| "fl_mul (Fin a) NInf = (if a = 0 then NaN else if 0 < a then NInf else PInf)"
| "fl_mul PInf (Fin b) = (if b = 0 then NaN else if 0 < b then PInf else NInf)"
| "fl_mul NInf (Fin b) = (if b = 0 then NaN else if 0 < b then NInf else PInf)"
| "fl_mul PInf PInf = PInf"
| "fl_mul PInf NInf = NInf"
| "fl_mul NInf PInf = NInf"
| "fl_mul NInf NInf = PInf"
| "fl_mul NaN b = NaN"
| "fl_mul a NaN = NaN"

text \<open>
  True division of floats raises \<^verbatim>\<open>ZeroDivisionError\<close> on a zero divisor, whatever the
  dividend is; a finite value divided by an infinity is zero; an infinity divided by an
  infinity is NaN.
\<close>

fun fl_div :: "pyfloat \<Rightarrow> pyfloat \<Rightarrow> exn + pyfloat" where
  "fl_div a (Fin b) =
     (if b = 0 then Inl ZeroDivisionError
      else case a of
          Fin x \<Rightarrow> Inr (Fin (x / b))
        | PInf \<Rightarrow> Inr (if 0 < b then PInf else NInf)
        | NInf \<Rightarrow> Inr (if 0 < b then NInf else PInf)
        | NaN \<Rightarrow> Inr NaN)"
| "fl_div (Fin x) PInf = Inr (Fin 0)"
| "fl_div (Fin x) NInf = Inr (Fin 0)"
| "fl_div a b = Inr NaN"

text \<open>Every comparison with NaN is false.\<close>

fun fl_lt :: "pyfloat \<Rightarrow> pyfloat \<Rightarrow> bool" where
  "fl_lt (Fin a) (Fin b) = (a < b)"
| "fl_lt (Fin a) PInf = True"
| "fl_lt NInf (Fin b) = True"
| "fl_lt NInf PInf = True"
| "fl_lt a b = False"

fun fl_le :: "pyfloat \<Rightarrow> pyfloat \<Rightarrow> bool" where
  "fl_le NaN b = False"
| "fl_le a NaN = False"
| "fl_le a b = (\<not> fl_lt b a)"

text \<open>
  \<^verbatim>\<open>min(a, b)\<close> returns \<open>a\<close> unless \<^verbatim>\<open>b < a\<close>, and \<^verbatim>\<open>max(a, b)\<close> returns \<open>a\<close>
  unless \<^verbatim>\<open>b > a\<close>; so a NaN in first position is returned.
\<close>

definition py_min :: "pyfloat \<Rightarrow> pyfloat \<Rightarrow> pyfloat" where
  "py_min a b = (if fl_lt b a then b else a)"

definition py_max :: "pyfloat \<Rightarrow> pyfloat \<Rightarrow> pyfloat" where
  "py_max a b = (if fl_lt a b then b else a)"

text \<open>
  \<^verbatim>\<open>round(x, 3)\<close> rounds to the nearest multiple of one thousandth, a tie going to the
  even neighbour; a float that is not finite is returned as it is.
\<close>

definition round_half_even :: "real \<Rightarrow> int" where
  "round_half_even y =
     (let f = \<lfloor>y\<rfloor>; d = y - of_int f
      in if d < 1 / 2 then f else if 1 / 2 < d then f + 1
         else if even f then f else f + 1)"

definition round3 :: "real \<Rightarrow> real" where
  "round3 x = of_int (round_half_even (x * 1000)) / 1000"

fun fl_round3 :: "pyfloat \<Rightarrow> pyfloat" where
  "fl_round3 (Fin x) = Fin (round3 x)"
| "fl_round3 v = v"

subsection \<open>Strings, lists and slices\<close>

text \<open>
  Strings are byte strings; \<^verbatim>\<open>str.lower\<close> is the ASCII case mapping. The test
  \<^verbatim>\<open>a in b\<close> on two strings holds when \<open>a\<close> occurs in \<open>b\<close> as a contiguous block,
  which is \<^const>\<open>sublist\<close>.
\<close>

definition lower_char :: "char \<Rightarrow> char" where
  "lower_char c =
     (case map_of (zip ''ABCDEFGHIJKLMNOPQRSTUVWXYZ'' ''abcdefghijklmnopqrstuvwxyz'') c of
        None \<Rightarrow> c | Some d \<Rightarrow> d)"

definition py_lower :: "string \<Rightarrow> string" where
  "py_lower s = map lower_char s"

definition py_in :: "string \<Rightarrow> string \<Rightarrow> bool" where
  "py_in needle hay = sublist needle hay"

definition is_space :: "char \<Rightarrow> bool" where
  "is_space c = (c \<in> set [CHR '' '', CHR 0x09, CHR 0x0A, CHR 0x0B, CHR 0x0C, CHR 0x0D,
                           CHR 0x1C, CHR 0x1D, CHR 0x1E, CHR 0x1F])"

definition py_strip :: "string \<Rightarrow> string" where
  "py_strip s = rev (dropWhile is_space (rev (dropWhile is_space s)))"

text \<open>
  The slice \<^verbatim>\<open>xs[:n]\<close>: the first \<open>n\<close> elements, and for a negative \<open>n\<close> all but the last
  \<open>-n\<close>.
\<close>

definition py_slice_to :: "int \<Rightarrow> 'a list \<Rightarrow> 'a list" where
  "py_slice_to n xs =
     (if 0 \<le> n then take (nat n) xs else take (length xs - nat (- n)) xs)"

text \<open>
  \<^verbatim>\<open>xs.sort(key=k, reverse=True)\<close> is a stable sort into descending key order: elements
  with equal keys keep their order. It is written as an insertion sort over the comparison
  \<open>lt\<close> of the key type. When \<open>lt\<close> is a linear order on the keys at hand, the stable
  descending arrangement is unique and this is the list Python returns. With a NaN among
  the keys no arrangement is sorted, and what Python returns then depends on the run
  detection of its merge sort; for a list which that detection takes as one non-descending
  run (every comparison of a neighbour with its predecessor false), Python leaves the list
  as it is.
\<close>

fun insert_desc :: "('k \<Rightarrow> 'k \<Rightarrow> bool) \<Rightarrow> ('a \<Rightarrow> 'k) \<Rightarrow> 'a \<Rightarrow> 'a list \<Rightarrow> 'a list" where
  "insert_desc lt key x [] = [x]"
| "insert_desc lt key x (y # ys) =
     (if lt (key x) (key y) then y # insert_desc lt key x ys else x # y # ys)"

fun py_sort_reverse :: "('k \<Rightarrow> 'k \<Rightarrow> bool) \<Rightarrow> ('a \<Rightarrow> 'k) \<Rightarrow> 'a list \<Rightarrow> 'a list" where
  "py_sort_reverse lt key [] = []"
| "py_sort_reverse lt key (x # xs) = insert_desc lt key x (py_sort_reverse lt key xs)"

section \<open>Embedding service: similarity\<close>

type_synonym vec = "real list"

text \<open>
  \<^verbatim>\<open>sklearn.metrics.pairwise.cosine_similarity\<close> on two rows: both rows are divided by
  their Euclidean norm, a zero norm being replaced by one, and the result is the dot
  product of the two normalised rows. Rows of different lengths, and rows without any
  component, are rejected with \<^verbatim>\<open>ValueError\<close>.
\<close>

definition row_norm :: "vec \<Rightarrow> real" where
  "row_norm v = sqrt (sum_list (map (\<lambda>x. x * x) v))"

definition handle_zeros_in_scale :: "real \<Rightarrow> real" where
  "handle_zeros_in_scale n = (if n = 0 then 1 else n)"

definition normalize_l2 :: "vec \<Rightarrow> vec" where
  "normalize_l2 v = map (\<lambda>x. x / handle_zeros_in_scale (row_norm v)) v"

definition dot :: "vec \<Rightarrow> vec \<Rightarrow> real" where
  "dot x y = sum_list (map (\<lambda>(a, b). a * b) (zip x y))"

definition cosine_similarity :: "vec \<Rightarrow> vec \<Rightarrow> exn + real" where
  "cosine_similarity x y =
     (if x = [] \<or> y = [] then Inl ValueError
      else if length x \<noteq> length y then Inl ValueError
      else Inr (dot (normalize_l2 x) (normalize_l2 y)))"

definition calculate_similarity :: "vec \<Rightarrow> vec \<Rightarrow> real" where
  "calculate_similarity embedding1 embedding2 =
     (case cosine_similarity embedding1 embedding2 of
        Inl e \<Rightarrow> 0
      | Inr similarity \<Rightarrow> similarity)"

text \<open>
  \<^verbatim>\<open>find_most_similar\<close>: the loop over \<^verbatim>\<open>enumerate(candidate_embeddings)\<close> calls
  \<^verbatim>\<open>cosine_similarity\<close> directly, so an exception there leaves the loop and the function
  returns the empty list.
\<close>

fun similarities :: "vec \<Rightarrow> (nat \<times> vec option) list \<Rightarrow> exn + (nat \<times> real) list" where
  "similarities query_emb [] = Inr []"
| "similarities query_emb ((i, None) # rest) =
     (case similarities query_emb rest of
        Inl e \<Rightarrow> Inl e
      | Inr sims \<Rightarrow> Inr ((i, 0) # sims))"
| "similarities query_emb ((i, Some candidate_emb) # rest) =
     (case cosine_similarity query_emb candidate_emb of
        Inl e \<Rightarrow> Inl e
      | Inr similarity \<Rightarrow>
          (case similarities query_emb rest of
             Inl e \<Rightarrow> Inl e
           | Inr sims \<Rightarrow> Inr ((i, similarity) # sims)))"

definition enumerate_list :: "'a list \<Rightarrow> (nat \<times> 'a) list" where
  "enumerate_list xs = zip [0..<length xs] xs"

definition find_most_similar :: "vec \<Rightarrow> vec option list \<Rightarrow> int \<Rightarrow> (nat \<times> real) list" where
  "find_most_similar query_embedding candidate_embeddings top_k =
     (if candidate_embeddings = [] then []
      else case similarities query_embedding (enumerate_list candidate_embeddings) of
          Inl e \<Rightarrow> []
        | Inr sims \<Rightarrow> py_slice_to top_k (py_sort_reverse (<) snd sims))"

section \<open>Search engine: data\<close>

text \<open>
  A job row. The nullable columns are options; \<open>skills_required\<close> and
  \<open>skills_preferred\<close> are JSON columns holding lists of strings. The dictionary
  \<^verbatim>\<open>job_dict\<close> that \<^verbatim>\<open>_calculate_job_match\<close> builds copies these columns, so the
  scorers read the row itself.
\<close>

record job =
  jid :: string
  title :: string
  company :: string
  location :: "string option"
  remote_type :: "string option"
  job_type :: "string option"
  experience_level :: "string option"
  description :: string
  requirements :: "string list option"
  responsibilities :: "string list option"
  salary_min :: "real option"
  salary_max :: "real option"
  skills_required :: "string list option"
  skills_preferred :: "string list option"

text \<open>
  The profile dictionary, with the keys that the scorers read; a key that is absent, or
  present with the value \<^verbatim>\<open>None\<close>, is \<open>None\<close>. The argument \<^verbatim>\<open>user_profile\<close> of a
  scorer is optional. An empty dictionary is falsy like \<^verbatim>\<open>None\<close>; every scorer returns
  for it what it returns for a profile with all five keys absent.
\<close>

record user_profile =
  skills :: "string list option"
  experience_years :: "int option"
  preferred_locations :: "string list option"
  desired_salary_min :: "real option"
  desired_salary_max :: "real option"

record JobMatch =
  job_id :: string
  job_title :: string
  match_company :: string
  match_location :: string
  semantic_score :: pyfloat
  skills_match_score :: pyfloat
  experience_match_score :: pyfloat
  salary_match_score :: pyfloat
  location_match_score :: pyfloat
  overall_score :: pyfloat

text \<open>
  The fields \<^verbatim>\<open>match_reasons\<close> and \<^verbatim>\<open>raw_job_data\<close> of \<^verbatim>\<open>JobMatch\<close> carry no score
  and take no part in filtering, ordering or truncation; they are left out.
\<close>

record SearchFilters =
  min_salary :: "real option"
  max_salary :: "real option"
  job_types :: "string list option"
  remote_types :: "string list option"
  experience_levels :: "string list option"
  locations :: "string list option"
  companies :: "string list option"
  required_skills :: "string list option"
  excluded_skills :: "string list option"
  max_age_days :: "int option"

section \<open>Search engine: the five scorers\<close>

definition calculate_skills_match :: "job \<Rightarrow> user_profile option \<Rightarrow> real" where
  "calculate_skills_match job_dict user_profile =
     (case user_profile of
        None \<Rightarrow> 0.5
      | Some p \<Rightarrow>
          (case skills p of
             None \<Rightarrow> 0.5
           | Some profile_skills \<Rightarrow>
               if profile_skills = [] then 0.5
               else
                 let user_skills = set (map py_lower profile_skills);
                     required = (case skills_required job_dict of None \<Rightarrow> [] | Some r \<Rightarrow> r);
                     preferred = (case skills_preferred job_dict of None \<Rightarrow> [] | Some r \<Rightarrow> r);
                     job_skills = set (map py_lower required) \<union> set (map py_lower preferred)
                 in if job_skills = {} then 0.5
                    else
                      let overlap = card (user_skills \<inter> job_skills);
                          total_job_skills = card job_skills
                      in if total_job_skills = 0 then 0.5
                         else min (real overlap / real total_job_skills) 1))"

definition level_to_years :: "string \<rightharpoonup> int \<times> int" where
  "level_to_years =
     map_of [(''entry_level'', (0, 2)), (''associate'', (1, 3)), (''mid_level'', (3, 7)),
             (''senior_level'', (5, 12)), (''director'', (8, 20)), (''executive'', (10, 30))]"

text \<open>
  The guard \<^verbatim>\<open>not user_profile.get('experience_years')\<close> holds for an absent key and for
  the value \<open>0\<close>.
\<close>

definition calculate_experience_match :: "job \<Rightarrow> user_profile option \<Rightarrow> real" where
  "calculate_experience_match job_dict user_profile =
     (case user_profile of
        None \<Rightarrow> 0.5
      | Some p \<Rightarrow>
          (case experience_years p of
             None \<Rightarrow> 0.5
           | Some user_years \<Rightarrow>
               if user_years = 0 then 0.5
               else
                 let job_level =
                       py_lower (case experience_level job_dict of None \<Rightarrow> [] | Some l \<Rightarrow> l)
                 in case level_to_years job_level of
                      None \<Rightarrow> 0.5
                    | Some (min_years, max_years) \<Rightarrow>
                        if min_years \<le> user_years \<and> user_years \<le> max_years then 1
                        else if user_years < min_years then
                          max 0 (1 - real_of_int (min_years - user_years) / 5)
                        else
                          max 0.6 (1 - real_of_int (user_years - max_years) / 10)))"

text \<open>
  In the salary scorer a bound is falsy when it is absent or zero. \<^verbatim>\<open>x or 0\<close> and
  \<^verbatim>\<open>x or float('inf')\<close> replace a falsy bound.
\<close>

definition truthy :: "real option \<Rightarrow> bool" where
  "truthy v = (case v of None \<Rightarrow> False | Some x \<Rightarrow> x \<noteq> 0)"

definition or_zero :: "real option \<Rightarrow> real" where
  "or_zero v = (case v of None \<Rightarrow> 0 | Some x \<Rightarrow> x)"

definition or_inf :: "real option \<Rightarrow> pyfloat" where
  "or_inf v = (case v of None \<Rightarrow> PInf | Some x \<Rightarrow> if x = 0 then PInf else Fin x)"

text \<open>\<^verbatim>\<open>filter(None, values)\<close> keeps the values that are neither absent nor zero.\<close>

definition known_values :: "real option list \<Rightarrow> real list" where
  "known_values vs =
     concat (map (\<lambda>v. case v of None \<Rightarrow> [] | Some x \<Rightarrow> if x = 0 then [] else [x]) vs)"

definition py_truediv :: "real \<Rightarrow> real \<Rightarrow> exn + real" where
  "py_truediv a b = (if b = 0 then Inl ZeroDivisionError else Inr (a / b))"

definition calculate_salary_match :: "job \<Rightarrow> user_profile option \<Rightarrow> pyfloat" where
  "calculate_salary_match job_dict user_profile =
     (case user_profile of
        None \<Rightarrow> Fin 0.5
      | Some p \<Rightarrow>
          let user_min = desired_salary_min p;
              user_max = desired_salary_max p;
              job_min = salary_min job_dict;
              job_max = salary_max job_dict
          in if \<not> (truthy user_min \<or> truthy user_max \<or> truthy job_min \<or> truthy job_max)
             then Fin 0.5
             else if \<not> truthy job_min \<and> \<not> truthy job_max then Fin 0.4
             else if \<not> truthy user_min \<and> \<not> truthy user_max then Fin 0.5
             else
               let job_lo = Fin (or_zero job_min); job_hi = or_inf job_max;
                   user_lo = Fin (or_zero user_min); user_hi = or_inf user_max;
                   overlap_start = py_max job_lo user_lo;
                   overlap_end = py_min job_hi user_hi
               in if fl_le overlap_start overlap_end then
                    let overlap_size = fl_sub overlap_end overlap_start;
                        job_range_size = fl_sub job_hi job_lo;
                        user_range_size = fl_sub user_hi user_lo
                    in if fl_lt (Fin 0) job_range_size \<and> fl_lt (Fin 0) user_range_size then
                         (case fl_div (fl_add job_range_size user_range_size) (Fin 2) of
                            Inl e \<Rightarrow> Fin 0.5
                          | Inr avg_range_size \<Rightarrow>
                              (case fl_div overlap_size avg_range_size of
                                 Inl e \<Rightarrow> Fin 0.5
                               | Inr score \<Rightarrow> py_min score (Fin 1)))
                       else Fin 1
                  else
                    let gap = fl_sub overlap_start overlap_end;
                        known = known_values [job_min, job_max, user_min, user_max]
                    in case py_truediv (sum_list known) (real (length known)) of
                         Inl e \<Rightarrow> Fin 0.5
                       | Inr avg_salary \<Rightarrow>
                           if 0 < avg_salary then
                             (case fl_div gap (Fin avg_salary) of
                                Inl e \<Rightarrow> Fin 0.5
                              | Inr gap_ratio \<Rightarrow> py_max (Fin 0) (fl_sub (Fin 1) gap_ratio))
                           else Fin 0)"

definition calculate_location_match :: "job \<Rightarrow> user_profile option \<Rightarrow> real" where
  "calculate_location_match job_dict user_profile =
     (case user_profile of
        None \<Rightarrow> 0.5
      | Some p \<Rightarrow>
          (case preferred_locations p of
             None \<Rightarrow> 0.5
           | Some locs \<Rightarrow>
               if locs = [] then 0.5
               else
                 let user_locations = map py_lower locs;
                     job_location = py_lower (case location job_dict of None \<Rightarrow> [] | Some l \<Rightarrow> l);
                     job_remote = py_lower (case remote_type job_dict of None \<Rightarrow> [] | Some r \<Rightarrow> r)
                 in if ''remote'' \<in> set user_locations \<and> job_remote \<in> set [''remote'', ''hybrid'']
                    then 1
                    else if list_ex (\<lambda>user_loc. py_in user_loc job_location
                                                \<or> py_in job_location user_loc) user_locations
                    then 1
                    else if job_remote = ''hybrid'' then 0.7
                    else 0.2))"

definition calculate_overall_score ::
  "pyfloat \<Rightarrow> pyfloat \<Rightarrow> pyfloat \<Rightarrow> pyfloat \<Rightarrow> pyfloat \<Rightarrow> pyfloat" where
  "calculate_overall_score semantic skills_s experience salary location_s =
     (let overall =
            fl_add (fl_add (fl_add (fl_add
              (fl_mul semantic (Fin 0.35))
              (fl_mul skills_s (Fin 0.25)))
              (fl_mul experience (Fin 0.20)))
              (fl_mul salary (Fin 0.15)))
              (fl_mul location_s (Fin 0.05))
      in fl_round3 overall)"

section \<open>Sample data\<close>

text \<open>A job row and a profile with every optional field absent, to build examples from.\<close>

definition example_job :: job where
  "example_job = \<lparr> jid = ''j1'', title = ''Engineer'', company = ''Acme'', location = None,
     remote_type = None, job_type = None, experience_level = None, description = '''',
     requirements = None, responsibilities = None, salary_min = None, salary_max = None,
     skills_required = None, skills_preferred = None \<rparr>"

definition example_profile :: user_profile where
  "example_profile = \<lparr> skills = None, experience_years = None, preferred_locations = None,
     desired_salary_min = None, desired_salary_max = None \<rparr>"

text \<open>The list stored under an optional key, empty when the key is absent.\<close>

definition listed :: "string list option \<Rightarrow> string list" where
  "listed v = (case v of None \<Rightarrow> [] | Some xs \<Rightarrow> xs)"

section \<open>Auxiliary definitions for the salary scorer\<close>


text \<open>
  The part of \<^verbatim>\<open>_calculate_salary_match\<close> behind its three guards, as a function of the
  four interval bounds and of the average of the supplied values.
\<close>

definition salary_core :: "pyfloat \<Rightarrow> pyfloat \<Rightarrow> pyfloat \<Rightarrow> pyfloat \<Rightarrow> real \<Rightarrow> pyfloat" where
  "salary_core job_lo job_hi user_lo user_hi avg =
    (if fl_le (py_max job_lo user_lo) (py_min job_hi user_hi) then
          if fl_lt (Fin 0) (fl_sub job_hi job_lo) \<and> fl_lt (Fin 0) (fl_sub user_hi user_lo) then
            (case fl_div (fl_add (fl_sub job_hi job_lo) (fl_sub user_hi user_lo)) (Fin 2) of
               Inl e \<Rightarrow> Fin 0.5
             | Inr avg_range_size \<Rightarrow>
                 (case fl_div (fl_sub (py_min job_hi user_hi) (py_max job_lo user_lo)) avg_range_size of
                    Inl e \<Rightarrow> Fin 0.5
                  | Inr score \<Rightarrow> py_min score (Fin 1)))
          else Fin 1
        else
          if 0 < avg then
               (case fl_div (fl_sub (py_max job_lo user_lo) (py_min job_hi user_hi)) (Fin avg) of
                  Inl e \<Rightarrow> Fin 0.5
                | Inr gap_ratio \<Rightarrow> py_max (Fin 0) (fl_sub (Fin 1) gap_ratio))
             else Fin 0)"

section \<open>Search engine: collaborators, search and similar jobs\<close>

text \<open>
  \<^verbatim>\<open>_get_filtered_jobs\<close> turns the filters into conditions of a database query. The
  conditions are data; running the query is the database's work and is a parameter,
  \<open>None\<close> standing for an exception inside the session.
\<close>

datatype criterion =
    SalaryMaxAtLeast real
  | SalaryMinAtMost real
  | JobTypeIn "string list"
  | RemoteTypeIn "string list"
  | ExperienceLevelIn "string list"
  | LocationContainsAny "string list"
  | CompanyIn "string list"
  | PostedWithinDays int

text \<open>
  The collaborators of the engine: the query runner, \<^verbatim>\<open>job_repo.get_job\<close> (which
  returns \<^verbatim>\<open>None\<close> for an unknown id and on a database error) and the three embedding
  functions, where \<open>None\<close> stands for a raised exception.
\<close>

record env =
  run_query :: "criterion list \<Rightarrow> job list option"
  get_job :: "string \<Rightarrow> job option"
  embed_text :: "string \<Rightarrow> vec option"
  embed_user_profile :: "user_profile \<Rightarrow> vec option"
  embed_job_description :: "job \<Rightarrow> vec option"

definition build_criteria :: "SearchFilters option \<Rightarrow> criterion list" where
  "build_criteria filters =
     (case filters of
        None \<Rightarrow> []
      | Some f \<Rightarrow>
          (case min_salary f of None \<Rightarrow> [] | Some v \<Rightarrow> [SalaryMaxAtLeast v])
          @ (case max_salary f of None \<Rightarrow> [] | Some v \<Rightarrow> [SalaryMinAtMost v])
          @ (if listed (job_types f) \<noteq> [] then [JobTypeIn (listed (job_types f))] else [])
          @ (if listed (remote_types f) \<noteq> [] then [RemoteTypeIn (listed (remote_types f))]
             else [])
          @ (if listed (experience_levels f) \<noteq> []
             then [ExperienceLevelIn (listed (experience_levels f))] else [])
          @ (if listed (locations f) \<noteq> [] then [LocationContainsAny (listed (locations f))]
             else [])
          @ (if listed (companies f) \<noteq> [] then [CompanyIn (listed (companies f))] else [])
          @ (case max_age_days f of
               None \<Rightarrow> []
             | Some d \<Rightarrow> if d \<noteq> 0 then [PostedWithinDays d] else []))"

definition get_filtered_jobs :: "env \<Rightarrow> SearchFilters option \<Rightarrow> job list" where
  "get_filtered_jobs env filters =
     (case run_query env (build_criteria filters) of
        None \<Rightarrow> []
      | Some jobs \<Rightarrow> jobs)"

text \<open>\<^verbatim>\<open>job.location or "Not specified"\<close>.\<close>

definition location_or_default :: "string option \<Rightarrow> string" where
  "location_or_default l =
     (case l of None \<Rightarrow> ''Not specified'' | Some s \<Rightarrow> if s = [] then ''Not specified'' else s)"

text \<open>
  \<^verbatim>\<open>_calculate_job_match\<close>: an exception anywhere in its body is caught and the result
  is \<^verbatim>\<open>None\<close>. The profile embedding is a parameter that the body does not use.
\<close>

definition calculate_job_match ::
  "env \<Rightarrow> job \<Rightarrow> vec \<Rightarrow> vec option \<Rightarrow> user_profile option \<Rightarrow> JobMatch option" where
  "calculate_job_match env job query_embedding user_embedding user_profile =
     (case embed_job_description env job of
        None \<Rightarrow> None
      | Some job_embedding \<Rightarrow>
          let semantic = Fin (calculate_similarity query_embedding job_embedding);
              skills_s = Fin (calculate_skills_match job user_profile);
              experience = Fin (calculate_experience_match job user_profile);
              salary = calculate_salary_match job user_profile;
              location_s = Fin (calculate_location_match job user_profile);
              overall = calculate_overall_score semantic skills_s experience salary location_s
          in Some \<lparr> job_id = jid job, job_title = title job, match_company = company job,
                     match_location = location_or_default (location job),
                     semantic_score = semantic, skills_match_score = skills_s,
                     experience_match_score = experience, salary_match_score = salary,
                     location_match_score = location_s, overall_score = overall \<rparr>)"

text \<open>The loop of \<^verbatim>\<open>search_jobs_semantic\<close>: a job without a match is skipped.\<close>

fun score_jobs ::
  "env \<Rightarrow> vec \<Rightarrow> vec option \<Rightarrow> user_profile option \<Rightarrow> job list \<Rightarrow> JobMatch list" where
  "score_jobs env query_embedding user_embedding user_profile [] = []"
| "score_jobs env query_embedding user_embedding user_profile (job # jobs) =
     (case calculate_job_match env job query_embedding user_embedding user_profile of
        None \<Rightarrow> score_jobs env query_embedding user_embedding user_profile jobs
      | Some job_match \<Rightarrow>
          job_match # score_jobs env query_embedding user_embedding user_profile jobs)"

definition search_jobs_semantic ::
  "env \<Rightarrow> string \<Rightarrow> user_profile option \<Rightarrow> SearchFilters option \<Rightarrow> int \<Rightarrow> JobMatch list" where
  "search_jobs_semantic env query user_profile filters limit =
     (let jobs = get_filtered_jobs env filters
      in if jobs = [] then []
         else case embed_text env query of
             None \<Rightarrow> []
           | Some query_embedding \<Rightarrow>
               (case (case user_profile of
                        None \<Rightarrow> Some None
                      | Some p \<Rightarrow> map_option Some (embed_user_profile env p)) of
                  None \<Rightarrow> []
                | Some user_embedding \<Rightarrow>
                    py_slice_to limit
                      (py_sort_reverse fl_lt overall_score
                         (score_jobs env query_embedding user_embedding user_profile jobs))))"

text \<open>
  The loop of \<^verbatim>\<open>find_similar_jobs\<close>: the reference job is skipped, and so is a job
  whose embedding raises; a job enters the result when its similarity exceeds \<open>0.3\<close>.
\<close>

fun similar_jobs :: "env \<Rightarrow> string \<Rightarrow> vec \<Rightarrow> job list \<Rightarrow> JobMatch list" where
  "similar_jobs env ref_id ref_embedding [] = []"
| "similar_jobs env ref_id ref_embedding (job # jobs) =
     (if jid job = ref_id then similar_jobs env ref_id ref_embedding jobs
      else case embed_job_description env job of
          None \<Rightarrow> similar_jobs env ref_id ref_embedding jobs
        | Some job_embedding \<Rightarrow>
            let similarity = calculate_similarity ref_embedding job_embedding
            in if 0.3 < similarity then
                 \<lparr> job_id = jid job, job_title = title job, match_company = company job,
                   match_location = location_or_default (location job),
                   semantic_score = Fin similarity, skills_match_score = Fin 0,
                   experience_match_score = Fin 0, salary_match_score = Fin 0,
                   location_match_score = Fin 0, overall_score = Fin similarity \<rparr>
                 # similar_jobs env ref_id ref_embedding jobs
               else similar_jobs env ref_id ref_embedding jobs)"

definition find_similar_jobs :: "env \<Rightarrow> string \<Rightarrow> int \<Rightarrow> JobMatch list" where
  "find_similar_jobs env ref_id limit =
     (case get_job env ref_id of
        None \<Rightarrow> []
      | Some ref_job \<Rightarrow>
          (case embed_job_description env ref_job of
             None \<Rightarrow> []
           | Some ref_embedding \<Rightarrow>
               py_slice_to limit
                 (py_sort_reverse fl_lt semantic_score
                    (similar_jobs env ref_id ref_embedding (get_filtered_jobs env None)))))"

section \<open>Explanation generator\<close>

text \<open>
  The job dictionary maps keys to strings and the score dictionary maps keys to floats.
  \<open>client\<close> is the configured provider, \<open>None\<close> when no provider is configured. Building
  the prompt and sending it is the parameter \<open>ask\<close>; it ends with an exception, with no
  response, or with a text.
\<close>

type_synonym job_dict = "string \<rightharpoonup> string"
type_synonym score_dict = "string \<rightharpoonup> pyfloat"

datatype llm_outcome = LlmRaised | LlmNoResponse | LlmText string

definition fallback_match_explanation :: "job_dict \<Rightarrow> score_dict \<Rightarrow> string" where
  "fallback_match_explanation job_dict match_scores =
     (let overall = (case match_scores ''overall_score'' of None \<Rightarrow> Fin 0 | Some v \<Rightarrow> v);
          job_title_text = (case job_dict ''title'' of None \<Rightarrow> ''position'' | Some t \<Rightarrow> t);
          company_text = (case job_dict ''company'' of None \<Rightarrow> ''this company'' | Some c \<Rightarrow> c)
      in if fl_le (Fin 0.7) overall then
           ''This looks like a strong match for the '' @ job_title_text @ '' role at ''
           @ company_text @ ''. Your skills and experience align well with their requirements.''
         else if fl_le (Fin 0.5) overall then
           ''This could be a good opportunity for the '' @ job_title_text
           @ '' role. There are some areas of alignment, though you may want to highlight specific relevant experiences in your application.''
         else
           ''This '' @ job_title_text
           @ '' role might be a stretch, but could offer growth opportunities. Consider whether you're ready to take on new challenges in areas where you have less experience.'')"

definition generate_match_explanation ::
  "'c option \<Rightarrow> ('c \<Rightarrow> job_dict \<Rightarrow> user_profile \<Rightarrow> score_dict \<Rightarrow> llm_outcome)
     \<Rightarrow> job_dict \<Rightarrow> user_profile \<Rightarrow> score_dict \<Rightarrow> string" where
  "generate_match_explanation client ask job_dict user_profile match_scores =
     (case client of
        None \<Rightarrow> fallback_match_explanation job_dict match_scores
      | Some c \<Rightarrow>
          (case ask c job_dict user_profile match_scores of
             LlmText response \<Rightarrow>
               if response \<noteq> [] then py_strip response
               else fallback_match_explanation job_dict match_scores
           | LlmNoResponse \<Rightarrow> fallback_match_explanation job_dict match_scores
           | LlmRaised \<Rightarrow> fallback_match_explanation job_dict match_scores))"

section \<open>A sample database\<close>

text \<open>
  Four jobs, stored in the order \<open>a, b, c, d\<close>. Job \<open>b\<close> states a minimum salary and no
  maximum. The embedding of a job is fixed by its id; every query and every profile
  embeds to \<open>[1, 0]\<close>.
\<close>

definition example_jobs :: "job list" where
  "example_jobs =
     [example_job\<lparr>jid := ''a''\<rparr>,
      example_job\<lparr>jid := ''b'', salary_min := Some 100000\<rparr>,
      example_job\<lparr>jid := ''c''\<rparr>,
      example_job\<lparr>jid := ''d''\<rparr>]"

definition example_env :: env where
  "example_env =
     \<lparr> run_query = (\<lambda>criteria. Some example_jobs),
       get_job = (\<lambda>i. find (\<lambda>j. jid j = i) example_jobs),
       embed_text = (\<lambda>t. Some [1, 0]),
       embed_user_profile = (\<lambda>p. Some [1, 0]),
       embed_job_description =
         (\<lambda>j. if jid j = ''a'' then Some [0, 1]
              else if jid j = ''b'' then Some [3, 4]
              else Some [1, 0]) \<rparr>"

text \<open>
  The score that the ranking of \<^verbatim>\<open>find_most_similar\<close> is stated with: the cosine
  similarity of the query and the candidate, and \<open>0\<close> for a missing candidate.
\<close>

definition candidate_score :: "vec \<Rightarrow> vec option \<Rightarrow> real" where
  "candidate_score query c =
     (case c of None \<Rightarrow> 0 | Some v \<Rightarrow> dot (normalize_l2 query) (normalize_l2 v))"

section \<open>Theorems\<close>

subsection \<open>Cosine similarity\<close>

lemma sumsq_nonneg: "0 \<le> sum_list (map (\<lambda>x. x * x) (v::real list))"
  by (induction v) auto

lemma cs_step:
  fixes s a b A B :: real
  assumes s: "\<bar>s\<bar> \<le> sqrt A * sqrt B" and A: "0 \<le> A" and B: "0 \<le> B"
  shows "\<bar>a * b + s\<bar> \<le> sqrt (a * a + A) * sqrt (b * b + B)"
proof -
  define x where "x = sqrt A"
  define y where "y = sqrt B"
  have x: "0 \<le> x" "x * x = A" using A by (simp_all add: x_def)
  have y: "0 \<le> y" "y * y = B" using B by (simp_all add: y_def)
  have "\<bar>a * b + s\<bar> \<le> \<bar>a\<bar> * \<bar>b\<bar> + x * y"
    using s by (simp add: x_def y_def abs_mult [symmetric])
  moreover have "\<bar>a\<bar> * \<bar>b\<bar> + x * y \<le> sqrt ((a * a + A) * (b * b + B))"
  proof (rule real_le_rsqrt)
    have "0 \<le> (\<bar>a\<bar> * y - x * \<bar>b\<bar>)\<^sup>2" by simp
    also have "(\<bar>a\<bar> * y - x * \<bar>b\<bar>)\<^sup>2
        = (a * a + x * x) * (b * b + y * y) - (\<bar>a\<bar> * \<bar>b\<bar> + x * y)\<^sup>2"
      by (simp add: power2_eq_square algebra_simps)
    finally show "(\<bar>a\<bar> * \<bar>b\<bar> + x * y)\<^sup>2 \<le> (a * a + A) * (b * b + B)"
      using x y by simp
  qed
  ultimately show ?thesis by (simp add: real_sqrt_mult)
qed

lemma cauchy_schwarz: "\<bar>dot x y\<bar> \<le> row_norm x * row_norm y"
proof (induction x arbitrary: y)
  case Nil
  then show ?case by (simp add: dot_def row_norm_def)
next
  case (Cons a x)
  show ?case
  proof (cases y)
    case Nil
    then show ?thesis by (simp add: dot_def row_norm_def sumsq_nonneg)
  next
    case (Cons b y')
    have "\<bar>a * b + dot x y'\<bar>
        \<le> sqrt (a * a + sum_list (map (\<lambda>x. x * x) x))
          * sqrt (b * b + sum_list (map (\<lambda>x. x * x) y'))"
      using Cons.IH [of y'] by (intro cs_step) (simp_all add: row_norm_def sumsq_nonneg)
    then show ?thesis using Cons by (simp add: dot_def row_norm_def)
  qed
qed

lemma dot_scale: "dot (map (\<lambda>a. a / c) x) (map (\<lambda>b. b / d) y) = dot x y / (c * d)"
proof (induction x arbitrary: y)
  case Nil
  then show ?case by (simp add: dot_def)
next
  case (Cons a x)
  then show ?case by (cases y) (simp_all add: dot_def add_divide_distrib)
qed

lemma row_norm_nonneg: "0 \<le> row_norm v"
  by (simp add: row_norm_def sumsq_nonneg)

lemma dot_normalized_bound: "\<bar>dot (normalize_l2 x) (normalize_l2 y)\<bar> \<le> 1"
proof (cases "row_norm x = 0 \<or> row_norm y = 0")
  case True
  then have "row_norm x * row_norm y = 0" by auto
  with cauchy_schwarz [of x y] have "dot x y = 0" by simp
  then show ?thesis by (simp add: normalize_l2_def dot_scale)
next
  case False
  then have pos: "0 < row_norm x * row_norm y"
    using row_norm_nonneg [of x] row_norm_nonneg [of y] by (simp add: less_le)
  have "\<bar>dot (normalize_l2 x) (normalize_l2 y)\<bar> = \<bar>dot x y\<bar> / (row_norm x * row_norm y)"
    using False row_norm_nonneg [of x] row_norm_nonneg [of y]
    by (simp add: normalize_l2_def dot_scale handle_zeros_in_scale_def abs_mult)
  also have "\<dots> \<le> 1" using cauchy_schwarz [of x y] pos by simp
  finally show ?thesis .
qed

lemma row_norm_zero_vector: "row_norm (replicate n 0) = 0"
  by (induction n) (simp_all add: row_norm_def)

lemma dot_normalized_zero_left: "row_norm x = 0 \<Longrightarrow> dot (normalize_l2 x) (normalize_l2 y) = 0"
  using cauchy_schwarz [of x y] by (simp add: normalize_l2_def dot_scale)

lemma dot_normalized_zero_right: "row_norm y = 0 \<Longrightarrow> dot (normalize_l2 x) (normalize_l2 y) = 0"
  using cauchy_schwarz [of x y] by (simp add: normalize_l2_def dot_scale)

lemma calculate_similarity_abs_le_1: "\<bar>calculate_similarity a b\<bar> \<le> 1"
  using dot_normalized_bound [of a b]
  by (simp add: calculate_similarity_def cosine_similarity_def)

text \<open>
  What \<^verbatim>\<open>calculate_similarity\<close> returns is the cosine similarity itself, a value
  between \<open>-1\<close> and \<open>1\<close>. When either argument is a zero vector the result is \<open>0\<close>.
\<close>

lemma calculate_similarity_range:
  "- 1 \<le> calculate_similarity a b \<and> calculate_similarity a b \<le> 1
   \<and> calculate_similarity (replicate n 0) b = 0
   \<and> calculate_similarity a (replicate n 0) = 0"
proof -
  have "\<bar>calculate_similarity a b\<bar> \<le> 1" by (rule calculate_similarity_abs_le_1)
  moreover have "calculate_similarity (replicate n 0) b = 0"
    by (simp add: calculate_similarity_def cosine_similarity_def
        dot_normalized_zero_left row_norm_zero_vector del: replicate_eq_replicate)
  moreover have "calculate_similarity a (replicate n 0) = 0"
    by (simp add: calculate_similarity_def cosine_similarity_def
        dot_normalized_zero_right row_norm_zero_vector)
  ultimately show ?thesis by (simp add: abs_le_iff)
qed

text \<open>
  C1 fails on the code. The result is not mapped into \<open>[0,1]\<close>: two opposite vectors
  have similarity \<open>-1\<close>. The repository's own check of this function, in
  \<^verbatim>\<open>scripts/test_phase3.py\<close>, accepts a similarity only when
  \<^verbatim>\<open>0.0 <= similarity <= 1.0\<close> and reports an invalid score otherwise.
\<close>

theorem calculate_similarity_opposite_vectors:
  "calculate_similarity [1] [- 1] = - 1 \<and> \<not> 0 \<le> calculate_similarity [1] [- 1]"
  by (simp add: calculate_similarity_def cosine_similarity_def normalize_l2_def
      row_norm_def dot_def handle_zeros_in_scale_def)

subsection \<open>Overall score\<close>





subsection \<open>Experience match\<close>








subsection \<open>Skills match\<close>




subsection \<open>Location match\<close>

text \<open>
  C10. When the profile has a non-empty list of preferred locations and the job's
  location is missing or the empty string, the location score is \<open>1\<close>: the empty string
  occurs in every preferred location. It is so for an on-site job too.
\<close>

theorem location_match_empty_job_location:
  assumes "preferred_locations p = Some locs" and "locs \<noteq> []"
    and "location j = None \<or> location j = Some []"
  shows "calculate_location_match j (Some p) = 1"
proof -
  have loc: "py_lower (case location j of None \<Rightarrow> [] | Some l \<Rightarrow> l) = []"
    using assms(3) by (auto simp add: py_lower_def)
  obtain l ls where locs: "locs = l # ls" using assms(2) by (cases locs) auto
  have "list_ex (\<lambda>user_loc. py_in user_loc [] \<or> py_in [] user_loc) (map py_lower locs)"
    by (simp add: locs py_in_def)
  then show ?thesis
    using assms(1,2) loc by (simp add: calculate_location_match_def Let_def)
qed

theorem location_match_empty_job_location_witness:
  "calculate_location_match (example_job\<lparr>remote_type := Some ''on_site''\<rparr>)
     (Some (example_profile\<lparr>preferred_locations := Some [''Berlin'']\<rparr>)) = 1
   \<and> calculate_location_match (example_job\<lparr>remote_type := Some ''on_site'', location := Some ''Paris''\<rparr>)
     (Some (example_profile\<lparr>preferred_locations := Some [''Berlin'']\<rparr>)) = 0.2"
proof -
  have a: "calculate_location_match (example_job\<lparr>remote_type := Some ''on_site''\<rparr>)
     (Some (example_profile\<lparr>preferred_locations := Some [''Berlin'']\<rparr>)) = 1"
    using location_match_empty_job_location [of "example_profile\<lparr>preferred_locations := Some [''Berlin'']\<rparr>"
        "[''Berlin'']" "example_job\<lparr>remote_type := Some ''on_site''\<rparr>"]
    by (simp add: example_job_def example_profile_def)
  have b: "calculate_location_match (example_job\<lparr>remote_type := Some ''on_site'', location := Some ''Paris''\<rparr>)
     (Some (example_profile\<lparr>preferred_locations := Some [''Berlin'']\<rparr>)) = 0.2"
    by (simp add: calculate_location_match_def example_job_def example_profile_def
        py_lower_def lower_char_def py_in_def sublist_code)
  from a b show ?thesis by simp
qed

subsection \<open>Salary match\<close>


lemma py_max_Fin: "py_max (Fin x) (Fin y) = Fin (max x y)"
  by (simp add: py_max_def max_def)










lemma salary_core_both_open: "salary_core (Fin a) PInf (Fin c) PInf avg = NaN"
  by (simp add: salary_core_def py_min_def py_max_Fin fl_sub_def)




text \<open>
  When neither the job nor the user supplies an upper bound, both intervals are unbounded
  and the score is \<^verbatim>\<open>inf / inf\<close>, which is NaN.
\<close>

lemma salary_nan:
  "calculate_salary_match
     (example_job\<lparr>salary_min := Some 100000\<rparr>)
     (Some (example_profile\<lparr>desired_salary_min := Some 90000\<rparr>)) = NaN"
  by (simp add: calculate_salary_match_def example_job_def example_profile_def truthy_def
      or_zero_def or_inf_def py_max_def py_min_def fl_sub_def)

subsection \<open>Sorting and slicing\<close>

lemma set_insert_desc: "set (insert_desc lt key x ys) = insert x (set ys)"
  by (induction ys) auto

lemma length_insert_desc: "length (insert_desc lt key x ys) = Suc (length ys)"
  by (induction ys) auto

lemma set_py_sort_reverse: "set (py_sort_reverse lt key xs) = set xs"
  by (induction xs) (auto simp add: set_insert_desc)

lemma length_py_sort_reverse: "length (py_sort_reverse lt key xs) = length xs"
  by (induction xs) (auto simp add: length_insert_desc)

lemma fl_le_trans: "fl_le a b \<Longrightarrow> fl_le b c \<Longrightarrow> fl_le a c"
  by (cases a; cases b; cases c) auto

lemma fl_lt_imp_le: "fl_lt a b \<Longrightarrow> fl_le a b"
  by (cases a; cases b) auto

lemma fl_not_lt_imp_le: "\<not> fl_lt a b \<Longrightarrow> a \<noteq> NaN \<Longrightarrow> b \<noteq> NaN \<Longrightarrow> fl_le b a"
  by (cases a; cases b) auto

lemma sorted_insert_desc_fl:
  assumes "sorted_wrt (\<lambda>a b. fl_le (key b) (key a)) ys"
    and "key x \<noteq> NaN" and "\<forall>y\<in>set ys. key y \<noteq> NaN"
  shows "sorted_wrt (\<lambda>a b. fl_le (key b) (key a)) (insert_desc fl_lt key x ys)"
  using assms
proof (induction ys)
  case Nil
  then show ?case by simp
next
  case (Cons y ys)
  show ?case
  proof (cases "fl_lt (key x) (key y)")
    case True
    then have "fl_le (key x) (key y)" by (rule fl_lt_imp_le)
    with Cons True show ?thesis by (auto simp add: set_insert_desc)
  next
    case False
    then have xy: "fl_le (key y) (key x)" using Cons.prems by (simp add: fl_not_lt_imp_le)
    have "\<forall>z\<in>set ys. fl_le (key z) (key x)"
      using Cons.prems(1) xy by (auto intro: fl_le_trans)
    with Cons.prems(1) xy False show ?thesis by simp
  qed
qed

lemma sorted_py_sort_reverse_fl:
  "\<forall>x\<in>set xs. key x \<noteq> NaN \<Longrightarrow>
     sorted_wrt (\<lambda>a b. fl_le (key b) (key a)) (py_sort_reverse fl_lt key xs)"
  by (induction xs) (simp_all add: sorted_insert_desc_fl set_py_sort_reverse)

lemma set_py_slice_to: "set (py_slice_to n xs) \<subseteq> set xs"
  by (auto simp add: py_slice_to_def dest: in_set_takeD)

lemma sorted_wrt_py_slice_to: "sorted_wrt R xs \<Longrightarrow> sorted_wrt R (py_slice_to n xs)"
  by (simp add: py_slice_to_def sorted_wrt_take)

lemma length_py_slice_to: "0 \<le> n \<Longrightarrow> length (py_slice_to n xs) \<le> nat n"
  by (simp add: py_slice_to_def)

lemma py_slice_to_all: "int (length xs) \<le> n \<Longrightarrow> py_slice_to n xs = xs"
  by (simp add: py_slice_to_def)

lemma sorted_insert_desc_stable:
  fixes x :: "nat \<times> real"
  assumes "sorted_wrt (\<lambda>a b. snd b < snd a \<or> (snd a = snd b \<and> fst a < fst b)) ys"
    and "\<forall>y\<in>set ys. fst x < fst y"
  shows "sorted_wrt (\<lambda>a b. snd b < snd a \<or> (snd a = snd b \<and> fst a < fst b))
           (insert_desc (<) snd x ys)"
  using assms
proof (induction ys)
  case Nil
  then show ?case by simp
next
  case (Cons y ys)
  show ?case
  proof (cases "snd x < snd y")
    case True
    with Cons show ?thesis by (auto simp add: set_insert_desc)
  next
    case False
    then have xy: "snd y < snd x \<or> (snd x = snd y \<and> fst x < fst y)"
      using Cons.prems(2) by auto
    have "\<forall>z\<in>set ys. snd z < snd x \<or> (snd x = snd z \<and> fst x < fst z)"
      using Cons.prems xy by fastforce
    with Cons.prems(1) xy False show ?thesis by simp
  qed
qed

lemma sorted_py_sort_reverse_stable:
  fixes xs :: "(nat \<times> real) list"
  assumes "sorted_wrt (\<lambda>a b. fst a < fst b) xs"
  shows "sorted_wrt (\<lambda>a b. snd b < snd a \<or> (snd a = snd b \<and> fst a < fst b))
           (py_sort_reverse (<) snd xs)"
  using assms
  by (induction xs) (simp_all add: sorted_insert_desc_stable set_py_sort_reverse)

subsection \<open>The sample database\<close>

lemma sqrt_25: "sqrt 25 = 5"
proof -
  have "sqrt 25 = sqrt (5\<^sup>2)" by simp
  then show ?thesis by (simp only: real_sqrt_abs)
qed

lemma example_similarities:
  "calculate_similarity [1, 0] [0, 1] = 0"
  "calculate_similarity [1, 0] [3, 4] = 3 / 5"
  "calculate_similarity [1, 0] [1, 0] = 1"
  by (simp_all add: calculate_similarity_def cosine_similarity_def normalize_l2_def
      row_norm_def dot_def handle_zeros_in_scale_def sqrt_25)

subsection \<open>Similar jobs\<close>

lemma similar_jobs_member:
  "m \<in> set (similar_jobs env ref_id ref_embedding jobs) \<Longrightarrow>
     job_id m \<noteq> ref_id \<and> (\<exists>s. semantic_score m = Fin s \<and> 0.3 < s)
     \<and> skills_match_score m = Fin 0 \<and> experience_match_score m = Fin 0
     \<and> salary_match_score m = Fin 0 \<and> location_match_score m = Fin 0
     \<and> overall_score m = semantic_score m"
  by (induction jobs) (auto simp add: Let_def split: if_splits option.splits)

lemma length_similar_jobs: "length (similar_jobs env ref_id ref_embedding jobs) \<le> length jobs"
  by (induction jobs) (auto simp add: Let_def split: option.splits)

text \<open>
  C6. No match returned by \<^verbatim>\<open>find_similar_jobs\<close> has the id of the reference job;
  every returned match has a semantic score above \<open>0.3\<close>, its four profile-dependent
  sub-scores are \<open>0\<close> and its overall score is its semantic score; the result is in
  descending order of semantic score; for a limit that is not negative it is the first
  \<open>limit\<close> elements of the result for a limit as large as the database; and for an
  unknown reference id it is empty.
\<close>

theorem find_similar_jobs_properties:
  "(\<forall>m\<in>set (find_similar_jobs env ref_id limit).
       job_id m \<noteq> ref_id \<and> (\<exists>s. semantic_score m = Fin s \<and> 0.3 < s)
       \<and> skills_match_score m = Fin 0 \<and> experience_match_score m = Fin 0
       \<and> salary_match_score m = Fin 0 \<and> location_match_score m = Fin 0
       \<and> overall_score m = semantic_score m)
   \<and> sorted_wrt (\<lambda>a b. fl_le (semantic_score b) (semantic_score a))
        (find_similar_jobs env ref_id limit)
   \<and> (0 \<le> limit \<longrightarrow>
        find_similar_jobs env ref_id limit
          = take (nat limit)
              (find_similar_jobs env ref_id (int (length (get_filtered_jobs env None)))))
   \<and> (get_job env ref_id = None \<longrightarrow> find_similar_jobs env ref_id limit = [])"
proof (cases "get_job env ref_id")
  case None
  then show ?thesis by (simp add: find_similar_jobs_def)
next
  case (Some ref_job)
  show ?thesis
  proof (cases "embed_job_description env ref_job")
    case None
    then show ?thesis using Some by (simp add: find_similar_jobs_def)
  next
    case (Some ref_embedding)
    define found where
      "found = similar_jobs env ref_id ref_embedding (get_filtered_jobs env None)"
    define ranked where "ranked = py_sort_reverse fl_lt semantic_score found"
    have res: "\<And>n. find_similar_jobs env ref_id n = py_slice_to n ranked"
      using \<open>get_job env ref_id = Some ref_job\<close> Some
      by (simp add: find_similar_jobs_def ranked_def found_def)
    have mem: "\<forall>m\<in>set ranked. job_id m \<noteq> ref_id \<and> (\<exists>s. semantic_score m = Fin s \<and> 0.3 < s)
       \<and> skills_match_score m = Fin 0 \<and> experience_match_score m = Fin 0
       \<and> salary_match_score m = Fin 0 \<and> location_match_score m = Fin 0
       \<and> overall_score m = semantic_score m"
      unfolding ranked_def set_py_sort_reverse found_def
      using similar_jobs_member by blast
    have "\<forall>m\<in>set found. semantic_score m \<noteq> NaN"
      unfolding found_def using similar_jobs_member by fastforce
    then have sorted: "sorted_wrt (\<lambda>a b. fl_le (semantic_score b) (semantic_score a)) ranked"
      unfolding ranked_def by (rule sorted_py_sort_reverse_fl)
    have "length ranked \<le> length (get_filtered_jobs env None)"
      unfolding ranked_def length_py_sort_reverse found_def by (rule length_similar_jobs)
    then have full: "find_similar_jobs env ref_id (int (length (get_filtered_jobs env None))) = ranked"
      unfolding res by (intro py_slice_to_all) simp
    have c1: "\<forall>m\<in>set (find_similar_jobs env ref_id limit).
       job_id m \<noteq> ref_id \<and> (\<exists>s. semantic_score m = Fin s \<and> 0.3 < s)
       \<and> skills_match_score m = Fin 0 \<and> experience_match_score m = Fin 0
       \<and> salary_match_score m = Fin 0 \<and> location_match_score m = Fin 0
       \<and> overall_score m = semantic_score m"
      unfolding res using mem set_py_slice_to [of limit ranked] by blast
    have c2: "sorted_wrt (\<lambda>a b. fl_le (semantic_score b) (semantic_score a))
        (find_similar_jobs env ref_id limit)"
      unfolding res using sorted by (rule sorted_wrt_py_slice_to)
    have c3: "0 \<le> limit \<longrightarrow> find_similar_jobs env ref_id limit
          = take (nat limit)
              (find_similar_jobs env ref_id (int (length (get_filtered_jobs env None))))"
      unfolding full unfolding res by (simp add: py_slice_to_def)
    have c4: "get_job env ref_id = None \<longrightarrow> find_similar_jobs env ref_id limit = []"
      using \<open>get_job env ref_id = Some ref_job\<close> by simp
    from c1 c2 c3 c4 show ?thesis by blast
  qed
qed

theorem find_similar_jobs_properties_witness:
  "map job_id (find_similar_jobs example_env ''c'' 4) = [''d'', ''b'']
   \<and> map semantic_score (find_similar_jobs example_env ''c'' 4) = [Fin 1, Fin (3 / 5)]
   \<and> find_similar_jobs example_env ''c'' 1 = take 1 (find_similar_jobs example_env ''c'' 4)
   \<and> map job_id (find_similar_jobs example_env ''c'' 1) = [''d'']
   \<and> find_similar_jobs example_env ''zz'' 1 = []"
proof -
  have n: "int (length (get_filtered_jobs example_env None)) = 4"
    by (simp add: get_filtered_jobs_def build_criteria_def example_env_def example_jobs_def)
  have ev: "map job_id (find_similar_jobs example_env ''c'' 4) = [''d'', ''b'']"
    "map semantic_score (find_similar_jobs example_env ''c'' 4) = [Fin 1, Fin (3 / 5)]"
    "map job_id (find_similar_jobs example_env ''c'' 1) = [''d'']"
    "get_job example_env ''zz'' = None"
    by (simp_all add: find_similar_jobs_def example_env_def example_jobs_def example_job_def
        get_filtered_jobs_def build_criteria_def example_similarities py_slice_to_def Let_def)
  have t: "find_similar_jobs example_env ''c'' 1 = take 1 (find_similar_jobs example_env ''c'' 4)"
    using find_similar_jobs_properties [of example_env "''c''" 1] n by simp
  have z: "find_similar_jobs example_env ''zz'' 1 = []"
    using find_similar_jobs_properties [of example_env "''zz''" 1] ev(4) by blast
  from ev(1,2,3) t z show ?thesis by (intro conjI)
qed

subsection \<open>Most similar candidates\<close>

lemma similarities_total:
  assumes "\<forall>(i, c)\<in>set ics. c = None \<or> (\<exists>v. c = Some v \<and> v \<noteq> [] \<and> length v = length query)"
  shows "similarities query ics = Inr (map (\<lambda>(i, c). (i, candidate_score query c)) ics)"
  using assms
proof (induction ics)
  case Nil
  then show ?case by simp
next
  case (Cons ic ics)
  obtain i c where ic: "ic = (i, c)" by (cases ic)
  have rest: "similarities query ics = Inr (map (\<lambda>(i, c). (i, candidate_score query c)) ics)"
    using Cons by simp
  show ?case
  proof (cases c)
    case None
    then show ?thesis using ic rest by (simp add: candidate_score_def)
  next
    case (Some v)
    then have "v \<noteq> []" and "length v = length query" using Cons.prems ic by simp_all
    then have "cosine_similarity query v = Inr (dot (normalize_l2 query) (normalize_l2 v))"
      by (auto simp add: cosine_similarity_def)
    then show ?thesis using ic rest Some by (simp add: candidate_score_def)
  qed
qed

lemma similarities_raises:
  assumes "(i, Some v) \<in> set ics" and "v = [] \<or> length v \<noteq> length query"
  shows "\<exists>e. similarities query ics = Inl e"
  using assms(1)
proof (induction ics)
  case Nil
  then show ?case by simp
next
  case (Cons ic ics)
  obtain k c where ic: "ic = (k, c)" by (cases ic)
  show ?case
  proof (cases "ic = (i, Some v)")
    case True
    have "cosine_similarity query v = Inl ValueError"
      using assms(2) by (auto simp add: cosine_similarity_def)
    then show ?thesis using True by simp
  next
    case False
    then have "(i, Some v) \<in> set ics" using Cons.prems by simp
    then obtain e where "similarities query ics = Inl e" using Cons.IH by blast
    then show ?thesis using ic by (cases c) (simp_all split: sum.splits)
  qed
qed

lemma enumerate_list_map:
  "map (\<lambda>(i, c). (i, f c)) (enumerate_list xs) = map (\<lambda>i. (i, f (xs ! i))) [0..<length xs]"
  by (rule nth_equalityI) (simp_all add: enumerate_list_def)

lemma in_set_enumerate_list: "c \<in> set xs \<Longrightarrow> \<exists>i. (i, c) \<in> set (enumerate_list xs)"
proof -
  assume "c \<in> set xs"
  then obtain i where i: "i < length xs" "xs ! i = c" by (auto simp add: in_set_conv_nth)
  then have "zip [0..<length xs] xs ! i = (i, c)" by simp
  moreover have "i < length (zip [0..<length xs] xs)" using i by simp
  ultimately have "(i, c) \<in> set (zip [0..<length xs] xs)" by (metis nth_mem)
  then show ?thesis unfolding enumerate_list_def by blast
qed

lemma sorted_wrt_fst_upt: "sorted_wrt (\<lambda>a b. fst a < fst b) (map (\<lambda>i. (i, g i)) [m..<n])"
  by (simp add: sorted_wrt_map)

text \<open>
  C8 (as the code has it). When every candidate is missing or is a vector with at least
  one component and of the query's dimension, \<^verbatim>\<open>find_most_similar\<close> returns the first
  \<open>top_k\<close> pairs of a ranking that holds, for every index of the candidate list, the pair
  of the index and the candidate's cosine similarity with the query, \<open>0\<close> for a missing
  candidate; the ranking is in descending order of score and, among equal scores, in
  ascending order of index. When some candidate vector has no component or another
  dimension than the query, the comparison raises, the exception is caught, and the
  result is the empty list.
\<close>

theorem find_most_similar_ranking:
  "((\<forall>c\<in>set candidates. c = None \<or> (\<exists>v. c = Some v \<and> v \<noteq> [] \<and> length v = length query))
     \<longrightarrow> (\<exists>ranked. find_most_similar query candidates top_k = py_slice_to top_k ranked
      \<and> (0 \<le> top_k \<longrightarrow> find_most_similar query candidates top_k = take (nat top_k) ranked)
      \<and> length ranked = length candidates
      \<and> set ranked = {(i, candidate_score query (candidates ! i)) | i. i < length candidates}
      \<and> sorted_wrt (\<lambda>a b. snd b < snd a \<or> (snd a = snd b \<and> fst a < fst b)) ranked))
   \<and> ((\<exists>v. Some v \<in> set candidates \<and> (v = [] \<or> length v \<noteq> length query))
     \<longrightarrow> find_most_similar query candidates top_k = [])"
proof (intro conjI impI)
  assume ok: "\<forall>c\<in>set candidates. c = None \<or> (\<exists>v. c = Some v \<and> v \<noteq> [] \<and> length v = length query)"
  define sims where
    "sims = map (\<lambda>i. (i, candidate_score query (candidates ! i))) [0..<length candidates]"
  define ranked where "ranked = py_sort_reverse (<) snd sims"
  have "\<forall>(i, c)\<in>set (enumerate_list candidates).
          c = None \<or> (\<exists>v. c = Some v \<and> v \<noteq> [] \<and> length v = length query)"
    using ok by (auto simp add: enumerate_list_def dest: set_zip_rightD)
  then have "similarities query (enumerate_list candidates) = Inr sims"
    unfolding sims_def enumerate_list_map [symmetric] by (rule similarities_total)
  then have res: "find_most_similar query candidates top_k = py_slice_to top_k ranked"
    by (cases "candidates = []")
       (simp_all add: find_most_similar_def ranked_def sims_def py_slice_to_def)
  have len: "length ranked = length candidates"
    by (simp add: ranked_def length_py_sort_reverse sims_def)
  have set: "set ranked = {(i, candidate_score query (candidates ! i)) | i. i < length candidates}"
    by (auto simp add: ranked_def set_py_sort_reverse sims_def)
  have sorted: "sorted_wrt (\<lambda>a b. snd b < snd a \<or> (snd a = snd b \<and> fst a < fst b)) ranked"
    unfolding ranked_def sims_def
    by (intro sorted_py_sort_reverse_stable sorted_wrt_fst_upt)
  have res': "0 \<le> top_k \<longrightarrow> find_most_similar query candidates top_k = take (nat top_k) ranked"
    unfolding res by (simp add: py_slice_to_def)
  from res res' len set sorted
  show "\<exists>ranked. find_most_similar query candidates top_k = py_slice_to top_k ranked
      \<and> (0 \<le> top_k \<longrightarrow> find_most_similar query candidates top_k = take (nat top_k) ranked)
      \<and> length ranked = length candidates
      \<and> set ranked = {(i, candidate_score query (candidates ! i)) | i. i < length candidates}
      \<and> sorted_wrt (\<lambda>a b. snd b < snd a \<or> (snd a = snd b \<and> fst a < fst b)) ranked"
    by blast
next
  assume "\<exists>v. Some v \<in> set candidates \<and> (v = [] \<or> length v \<noteq> length query)"
  then obtain v where v: "Some v \<in> set candidates" "v = [] \<or> length v \<noteq> length query"
    by blast
  from in_set_enumerate_list [OF v(1)]
  obtain i where "(i, Some v) \<in> set (enumerate_list candidates)" ..
  from similarities_raises [OF this v(2)]
  obtain e where "similarities query (enumerate_list candidates) = Inl e" ..
  then show "find_most_similar query candidates top_k = []"
    by (simp add: find_most_similar_def)
qed

theorem find_most_similar_ranking_witness:
  "find_most_similar [1, 0] [Some [0, 1], None, Some [1, 0], Some [1, 0]] 3
     = [(2, 1), (3, 1), (0, 0)]
   \<and> (\<exists>ranked. find_most_similar [1, 0] [Some [0, 1], None, Some [1, 0], Some [1, 0]] 3
                 = py_slice_to 3 ranked
      \<and> length ranked = 4
      \<and> sorted_wrt (\<lambda>a b. snd b < snd a \<or> (snd a = snd b \<and> fst a < fst b)) ranked)
   \<and> find_most_similar [1, 0] [None, Some [1]] 5 = []"
proof -
  have e: "enumerate_list [Some [0, 1], None, Some [1, 0], Some [1::real, 0]]
      = [(0, Some [0, 1]), (1, None), (2, Some [1, 0]), (3, Some [1, 0])]"
    by (simp add: enumerate_list_def upt_rec)
  have v: "find_most_similar [1, 0] [Some [0, 1], None, Some [1, 0], Some [1, 0]] 3
     = [(2, 1), (3, 1), (0, 0)]"
    by (simp add: find_most_similar_def e cosine_similarity_def normalize_l2_def row_norm_def
        handle_zeros_in_scale_def dot_def py_slice_to_def)
  have r: "\<exists>ranked. find_most_similar [1, 0] [Some [0, 1], None, Some [1, 0], Some [1, 0]] 3
                 = py_slice_to 3 ranked
      \<and> length ranked = 4
      \<and> sorted_wrt (\<lambda>a b. snd b < snd a \<or> (snd a = snd b \<and> fst a < fst b)) ranked"
  proof -
    have "\<forall>c\<in>set [Some [0, 1], None, Some [1, 0], Some [1::real, 0]].
            c = None \<or> (\<exists>v. c = Some v \<and> v \<noteq> [] \<and> length v = length [1::real, 0])"
      by simp
    with find_most_similar_ranking [of "[Some [0, 1], None, Some [1, 0], Some [1, 0]]" "[1, 0]" 3]
    obtain ranked where "find_most_similar [1, 0] [Some [0, 1], None, Some [1, 0], Some [1, 0]] 3
                 = py_slice_to 3 ranked"
      "length ranked = length [Some [0, 1], None, Some [1, 0], Some [1::real, 0]]"
      "sorted_wrt (\<lambda>a b. snd b < snd a \<or> (snd a = snd b \<and> fst a < fst b)) ranked"
      by blast
    then show ?thesis by (intro exI [of _ ranked]) simp
  qed
  have f: "find_most_similar [1, 0] [None, Some [1]] 5 = []"
  proof -
    have "\<exists>v. Some v \<in> set [None, Some [1::real]] \<and> (v = [] \<or> length v \<noteq> length [1::real, 0])"
      by simp
    with find_most_similar_ranking [of "[None, Some [1]]" "[1, 0]" 5] show ?thesis by blast
  qed
  from v r f show ?thesis by (intro conjI)
qed

text \<open>
  C8 (as the specification has it) fails when a candidate has another dimension than the
  query: with the candidates \<open>None\<close> and \<open>[1]\<close> and the query \<open>[1, 0]\<close> the result is
  empty, so the missing candidate does not contribute the pair \<open>(0, 0.0)\<close>.
\<close>

theorem find_most_similar_dimension_counterexample:
  "find_most_similar [1, 0] [None, Some [1]] 5 = []
   \<and> (0, 0) \<notin> set (find_most_similar [1, 0] [None, Some [1]] 5)"
  by (simp add: find_most_similar_def enumerate_list_def upt_rec cosine_similarity_def)

subsection \<open>Search\<close>

text \<open>
  What \<^verbatim>\<open>search_jobs_semantic\<close> does on every input: it is a total function, so no
  exception reaches the caller; without candidates the result is empty; a candidate whose
  scoring fails is left out and the candidates after it are scored all the same; for a
  limit that is not negative the result has at most \<open>limit\<close> elements; and the result is
  in descending order of overall score when no scored candidate has the overall score NaN.
\<close>

lemma search_no_candidates:
  "get_filtered_jobs env filters = [] \<Longrightarrow>
     search_jobs_semantic env query user_profile filters limit = []"
  by (simp add: search_jobs_semantic_def)

lemma search_length_limit:
  "0 \<le> limit \<Longrightarrow>
     length (search_jobs_semantic env query user_profile filters limit) \<le> nat limit"
  by (auto simp add: search_jobs_semantic_def Let_def length_py_slice_to
      split: option.splits)

lemma score_jobs_append:
  "score_jobs env q ue p (xs @ ys) = score_jobs env q ue p xs @ score_jobs env q ue p ys"
  by (induction xs) (auto split: option.splits)

lemma score_jobs_skips_failure:
  "calculate_job_match env job q ue p = None \<Longrightarrow>
     score_jobs env q ue p (before @ job # after) = score_jobs env q ue p (before @ after)"
  by (simp add: score_jobs_append)

lemma score_jobs_member:
  "m \<in> set (score_jobs env q ue p jobs) \<Longrightarrow>
     \<exists>job\<in>set jobs. calculate_job_match env job q ue p = Some m"
  by (induction jobs) (auto split: option.splits)

lemma search_sorted_without_nan:
  assumes "\<forall>job\<in>set (get_filtered_jobs env filters). \<forall>q ue m.
             calculate_job_match env job q ue user_profile = Some m \<longrightarrow> overall_score m \<noteq> NaN"
  shows "sorted_wrt (\<lambda>a b. fl_le (overall_score b) (overall_score a))
           (search_jobs_semantic env query user_profile filters limit)"
proof -
  have "\<And>q ue. \<forall>m\<in>set (score_jobs env q ue user_profile (get_filtered_jobs env filters)).
          overall_score m \<noteq> NaN"
    using assms score_jobs_member by blast
  then have "\<And>q ue. sorted_wrt (\<lambda>a b. fl_le (overall_score b) (overall_score a))
      (py_slice_to limit (py_sort_reverse fl_lt overall_score
         (score_jobs env q ue user_profile (get_filtered_jobs env filters))))"
    by (intro sorted_wrt_py_slice_to sorted_py_sort_reverse_fl)
  then show ?thesis
    by (auto simp add: search_jobs_semantic_def Let_def split: option.splits)
qed

text \<open>
  C7 fails on the sample database. The user states a minimum desired salary of \<open>90000\<close>
  and no maximum; job \<open>b\<close> states a minimum salary and no maximum. The salary score of
  \<open>b\<close> is NaN (lemma \<open>salary_nan\<close>), so its overall score is NaN, and the returned list
  is \<open>a, b, c, d\<close> with overall scores \<open>0.31, NaN, 0.66, 0.66\<close>: job \<open>a\<close> stands before
  the better matches \<open>c\<close> and \<open>d\<close>. Python's sort returns this same list: after the
  reversal that \<^verbatim>\<open>reverse=True\<close> starts with, no element compares less than its
  predecessor, the whole list counts as one run, and it is reversed back unchanged.
\<close>

theorem search_order_broken_by_nan:
  "map job_id (search_jobs_semantic example_env ''engineer''
        (Some (example_profile\<lparr>desired_salary_min := Some 90000\<rparr>)) None 20)
     = [''a'', ''b'', ''c'', ''d'']
   \<and> map overall_score (search_jobs_semantic example_env ''engineer''
        (Some (example_profile\<lparr>desired_salary_min := Some 90000\<rparr>)) None 20)
     = [Fin 0.31, NaN, Fin 0.66, Fin 0.66]
   \<and> \<not> sorted_wrt (\<lambda>x y. fl_le y x)
        (map overall_score (search_jobs_semantic example_env ''engineer''
           (Some (example_profile\<lparr>desired_salary_min := Some 90000\<rparr>)) None 20))"
proof -
  have ids: "map job_id (search_jobs_semantic example_env ''engineer''
        (Some (example_profile\<lparr>desired_salary_min := Some 90000\<rparr>)) None 20)
     = [''a'', ''b'', ''c'', ''d'']"
    and scores: "map overall_score (search_jobs_semantic example_env ''engineer''
        (Some (example_profile\<lparr>desired_salary_min := Some 90000\<rparr>)) None 20)
     = [Fin 0.31, NaN, Fin 0.66, Fin 0.66]"
    by (simp_all add: search_jobs_semantic_def get_filtered_jobs_def build_criteria_def
        example_env_def example_jobs_def example_job_def example_profile_def
        calculate_job_match_def example_similarities calculate_skills_match_def
        calculate_experience_match_def calculate_location_match_def calculate_salary_match_def
        calculate_overall_score_def truthy_def or_zero_def or_inf_def py_max_def py_min_def
        fl_sub_def round3_def round_half_even_def Let_def py_slice_to_def)
  have "\<not> sorted_wrt (\<lambda>x y. fl_le y x) [Fin 0.31, NaN, Fin 0.66, Fin 0.66]"
    by simp
  with ids scores show ?thesis by simp
qed

subsection \<open>Explanation without a language model\<close>

text \<open>
  C9. With no provider configured, \<^verbatim>\<open>generate_match_explanation\<close> returns a string that
  is not empty, that contains the job's title (the word \<open>position\<close> when the job has no
  title) and that contains the phrase of the tier of the overall score: \<open>strong match\<close>
  from \<open>0.7\<close>, \<open>good opportunity\<close> from \<open>0.5\<close>, and \<open>might be a stretch\<close> below, which is
  also the tier of an absent or NaN overall score.
\<close>

theorem explanation_without_llm:
  "(let r = generate_match_explanation None ask job_dict user_profile match_scores;
        t = (case job_dict ''title'' of None \<Rightarrow> ''position'' | Some t \<Rightarrow> t);
        overall = (case match_scores ''overall_score'' of None \<Rightarrow> Fin 0 | Some v \<Rightarrow> v)
    in r \<noteq> [] \<and> sublist t r
       \<and> sublist (if fl_le (Fin 0.7) overall then ''strong match''
                  else if fl_le (Fin 0.5) overall then ''good opportunity''
                  else ''might be a stretch'') r)"
proof -
  define t where "t = (case job_dict ''title'' of None \<Rightarrow> ''position'' | Some t \<Rightarrow> t)"
  define c where "c = (case job_dict ''company'' of None \<Rightarrow> ''this company'' | Some c \<Rightarrow> c)"
  define overall where
    "overall = (case match_scores ''overall_score'' of None \<Rightarrow> Fin 0 | Some v \<Rightarrow> v)"
  define r where "r = generate_match_explanation None ask job_dict user_profile match_scores"
  have r: "r = (if fl_le (Fin 0.7) overall then
           ''This looks like a strong match for the '' @ t @ '' role at ''
           @ c @ ''. Your skills and experience align well with their requirements.''
         else if fl_le (Fin 0.5) overall then
           ''This could be a good opportunity for the '' @ t
           @ '' role. There are some areas of alignment, though you may want to highlight specific relevant experiences in your application.''
         else
           ''This '' @ t
           @ '' role might be a stretch, but could offer growth opportunities. Consider whether you're ready to take on new challenges in areas where you have less experience.'')"
    unfolding r_def generate_match_explanation_def fallback_match_explanation_def Let_def
      t_def c_def overall_def by (simp only: option.case)
  have ne: "r \<noteq> []" unfolding r by simp
  have title: "sublist t r"
  proof -
    have "sublist t (''This looks like a strong match for the '' @ t @ ('' role at ''
           @ c @ ''. Your skills and experience align well with their requirements.''))"
      by (rule sublist_appendI)
    moreover have "sublist t (''This could be a good opportunity for the '' @ t
           @ '' role. There are some areas of alignment, though you may want to highlight specific relevant experiences in your application.'')"
      by (rule sublist_appendI)
    moreover have "sublist t (''This '' @ t
           @ '' role might be a stretch, but could offer growth opportunities. Consider whether you're ready to take on new challenges in areas where you have less experience.'')"
      by (rule sublist_appendI)
    ultimately show ?thesis unfolding r by (simp only: if_split append_assoc) simp
  qed
  have tier: "sublist (if fl_le (Fin 0.7) overall then ''strong match''
                  else if fl_le (Fin 0.5) overall then ''good opportunity''
                  else ''might be a stretch'') r"
  proof -
    have a: "sublist ''strong match'' (''This looks like a '' @ ''strong match'' @ ('' for the '' @ t @ '' role at ''
           @ c @ ''. Your skills and experience align well with their requirements.''))"
      by (rule sublist_appendI)
    have b: "sublist ''good opportunity'' (''This could be a '' @ ''good opportunity'' @ ('' for the '' @ t
           @ '' role. There are some areas of alignment, though you may want to highlight specific relevant experiences in your application.''))"
      by (rule sublist_appendI)
    have c: "sublist ''might be a stretch'' ((''This '' @ t @ '' role '') @ ''might be a stretch'' @ '', but could offer growth opportunities. Consider whether you're ready to take on new challenges in areas where you have less experience.'')"
      by (rule sublist_appendI)
    show ?thesis unfolding r using a b c by (simp split: if_splits)
  qed
  from ne title tier show ?thesis
    unfolding Let_def r_def t_def overall_def by (intro conjI)
qed

theorem explanation_without_llm_witness:
  "generate_match_explanation (None :: unit option) (\<lambda>c j p m. LlmNoResponse)
      [''title'' \<mapsto> ''Data Engineer'', ''company'' \<mapsto> ''Acme''] example_profile
      [''overall_score'' \<mapsto> Fin 0.85]
   = ''This looks like a strong match for the Data Engineer role at Acme. Your skills and experience align well with their requirements.''
   \<and> sublist ''Data Engineer''
        (generate_match_explanation (None :: unit option) (\<lambda>c j p m. LlmNoResponse)
           [''title'' \<mapsto> ''Data Engineer'', ''company'' \<mapsto> ''Acme''] example_profile
           [''overall_score'' \<mapsto> Fin 0.85])
   \<and> sublist ''strong match''
        (generate_match_explanation (None :: unit option) (\<lambda>c j p m. LlmNoResponse)
           [''title'' \<mapsto> ''Data Engineer'', ''company'' \<mapsto> ''Acme''] example_profile
           [''overall_score'' \<mapsto> Fin 0.85])"
proof -
  have v: "generate_match_explanation (None :: unit option) (\<lambda>c j p m. LlmNoResponse)
      [''title'' \<mapsto> ''Data Engineer'', ''company'' \<mapsto> ''Acme''] example_profile
      [''overall_score'' \<mapsto> Fin 0.85]
   = ''This looks like a strong match for the Data Engineer role at Acme. Your skills and experience align well with their requirements.''"
    by (simp add: generate_match_explanation_def fallback_match_explanation_def)
  have s: "sublist ''Data Engineer''
        (generate_match_explanation (None :: unit option) (\<lambda>c j p m. LlmNoResponse)
           [''title'' \<mapsto> ''Data Engineer'', ''company'' \<mapsto> ''Acme''] example_profile
           [''overall_score'' \<mapsto> Fin 0.85])
   \<and> sublist ''strong match''
        (generate_match_explanation (None :: unit option) (\<lambda>c j p m. LlmNoResponse)
           [''title'' \<mapsto> ''Data Engineer'', ''company'' \<mapsto> ''Acme''] example_profile
           [''overall_score'' \<mapsto> Fin 0.85])"
    using explanation_without_llm [of "\<lambda>(c::unit) j p m. LlmNoResponse"
        "[''title'' \<mapsto> ''Data Engineer'', ''company'' \<mapsto> ''Acme'']"
        example_profile "[''overall_score'' \<mapsto> Fin 0.85]"]
    by (simp add: Let_def)
  from v s show ?thesis by (intro conjI) simp_all
qed

end
